theory Spec2Isabelle
  imports Main "HOL-Library.Multiset"
begin

section \<open>Values exchanged with clients\<close>

text \<open>
  The handlers of \<^verbatim>\<open>main.py\<close> receive a decoded JSON object \<^verbatim>\<open>data\<close>. The
  model covers the JSON values null, booleans, integers and strings; floating-point
  numbers, arrays and nested objects are outside the model. A Python \<^verbatim>\<open>str\<close> is a
  list of code points below 256.
\<close>

datatype pyval = PNone | PBool bool | PInt int | PStr string

text \<open>Values placed in the payload of an emitted event. \<open>JTime t\<close> stands for
  \<^verbatim>\<open>t.isoformat()\<close>, whose rendering is kept abstract.\<close>

datatype jval = JInt int | JStr string | JTime int

datatype exn = KeyError | TypeError | ValueError | AttributeError | EmitError
  | OverflowError | OperationalError

subsection \<open>Python dictionaries, in insertion order\<close>

type_synonym ('k, 'v) dict = "('k \<times> 'v) list"

definition dict_get :: "('k, 'v) dict \<Rightarrow> 'k \<Rightarrow> 'v option" where
  "dict_get d k = map_of d k"

fun dict_set :: "('k, 'v) dict \<Rightarrow> 'k \<Rightarrow> 'v \<Rightarrow> ('k, 'v) dict" where
  "dict_set [] k v = [(k, v)]"
| "dict_set (p # ps) k v = (if fst p = k then (k, v) # ps else p # dict_set ps k v)"

definition dict_del :: "('k, 'v) dict \<Rightarrow> 'k \<Rightarrow> ('k, 'v) dict" where
  "dict_del d k = filter (\<lambda>p. fst p \<noteq> k) d"

text \<open>\<^verbatim>\<open>data[key]\<close>: a missing key raises \<^verbatim>\<open>KeyError\<close>.\<close>

definition subscript :: "(string, pyval) dict \<Rightarrow> string \<Rightarrow> exn + pyval" where
  "subscript data k = (case dict_get data k of None \<Rightarrow> Inl KeyError | Some v \<Rightarrow> Inr v)"

subsection \<open>Built-in conversions\<close>

text \<open>\<^verbatim>\<open>str(n)\<close> for an integer: decimal digits, with a minus sign when negative.\<close>

definition digit_char :: "nat \<Rightarrow> char" where
  "digit_char d = char_of (48 + d)"

fun str_nat :: "nat \<Rightarrow> string" where
  "str_nat n = (if n < 10 then [digit_char n] else str_nat (n div 10) @ [digit_char (n mod 10)])"

declare str_nat.simps [simp del]

definition str_int :: "int \<Rightarrow> string" where
  "str_int i = (if i < 0 then CHR ''-'' # str_nat (nat (- i)) else str_nat (nat i))"

text \<open>What an f-string makes of a value of the model.\<close>

fun py_str :: "pyval \<Rightarrow> string" where
  "py_str PNone = ''None''"
| "py_str (PBool b) = (if b then ''True'' else ''False'')"
| "py_str (PInt i) = str_int i"
| "py_str (PStr s) = s"

text \<open>\<^verbatim>\<open>str.strip()\<close>: removes leading and trailing whitespace, that is the code
  points for which \<^verbatim>\<open>str.isspace\<close> holds.\<close>

definition py_isspace :: "char \<Rightarrow> bool" where
  "py_isspace c = (of_char c \<in> {9, 10, 11, 12, 13, 28, 29, 30, 31, 32, 133, 160 :: nat})"

definition strip :: "string \<Rightarrow> string" where
  "strip s = rev (dropWhile py_isspace (rev (dropWhile py_isspace s)))"

definition py_strip :: "pyval \<Rightarrow> exn + string" where
  "py_strip v = (case v of PStr s \<Rightarrow> Inr (strip s) | _ \<Rightarrow> Inl AttributeError)"

section \<open>Environment and state\<close>

text \<open>A row of the table \<^verbatim>\<open>Message\<close>.\<close>

record message =
  message_id :: int
  sender_id :: int
  receiver_id :: int
  body :: string
  timestamp :: int

text \<open>
  What the program does not fix is a parameter of the model:
  \<^item> \<open>int_of_str\<close> is the built-in \<^verbatim>\<open>int\<close> on strings (\<open>None\<close> where it raises
    \<^verbatim>\<open>ValueError\<close>);
  \<^item> \<open>clock\<close> gives the reading of the \<open>n\<close>-th call of \<^verbatim>\<open>datetime.now\<close>, in
    microseconds; no monotonicity is assumed;
  \<^item> \<open>emit_raises\<close> tells whether the \<open>n\<close>-th call of \<^verbatim>\<open>emit\<close> raises;
  \<^item> \<open>random_rowid\<close> is the outcome of the database engine's random search for an
    unused row id, made only when the table already holds the largest row id
    (\<open>None\<close> when the search gives up).
\<close>

record env =
  int_of_str :: "string \<Rightarrow> int option"
  clock :: "nat \<Rightarrow> int"
  emit_raises :: "nat \<Rightarrow> bool"
  random_rowid :: "message list \<Rightarrow> int option"

text \<open>An event handed to the Socket.IO server, with the connections it is addressed to.\<close>

record emission =
  event :: string
  payload :: "(string, jval) dict"
  recipients :: "string set"

record world =
  messages :: "message list"
  connected_users :: "(string, string) dict"
  rooms :: "string \<Rightarrow> string set"
  outbox :: "emission list"
  ticks :: nat
  emit_calls :: nat

text \<open>The outcome of a block of code: \<open>Inr\<close> on normal completion, \<open>Inl\<close> with the
  exception and the state reached when it was raised.\<close>

type_synonym 'a outcome = "(exn \<times> world) + 'a"

definition final :: "world outcome \<Rightarrow> world" where
  "final r = (case r of Inl (e, w) \<Rightarrow> w | Inr w \<Rightarrow> w)"

text \<open>\<^verbatim>\<open>int(v)\<close>.\<close>

definition py_int :: "env \<Rightarrow> pyval \<Rightarrow> exn + int" where
  "py_int E v = (case v of
       PNone \<Rightarrow> Inl TypeError
     | PBool b \<Rightarrow> Inr (if b then 1 else 0)
     | PInt i \<Rightarrow> Inr i
     | PStr s \<Rightarrow> (case int_of_str E s of None \<Rightarrow> Inl ValueError | Some i \<Rightarrow> Inr i))"

text \<open>\<^verbatim>\<open>int(data[key])\<close>.\<close>

definition int_field :: "env \<Rightarrow> (string, pyval) dict \<Rightarrow> string \<Rightarrow> exn + int" where
  "int_field E data k = (case subscript data k of Inl e \<Rightarrow> Inl e | Inr v \<Rightarrow> py_int E v)"

definition now :: "env \<Rightarrow> world \<Rightarrow> int \<times> world" where
  "now E w = (clock E (ticks w), w\<lparr>ticks := Suc (ticks w)\<rparr>)"

subsection \<open>The Socket.IO server\<close>

text \<open>
  \<^verbatim>\<open>join_room\<close> and \<^verbatim>\<open>emit\<close> are calls into the Socket.IO server. A room is a
  name with a set of connections; every connection is entered into the room named by its
  own sid when it connects and leaves all its rooms when it disconnects. An emission is
  addressed to the members of the target room at the time of the call; a call that
  raises records nothing.
\<close>

definition join_room :: "string \<Rightarrow> string \<Rightarrow> world \<Rightarrow> world" where
  "join_room sid room w = w\<lparr>rooms := (rooms w)(room := insert sid (rooms w room))\<rparr>"

definition emit :: "env \<Rightarrow> string \<Rightarrow> (string, jval) dict \<Rightarrow> string \<Rightarrow> world \<Rightarrow> world outcome" where
  "emit E ev pl target w =
     (let w1 = w\<lparr>emit_calls := Suc (emit_calls w)\<rparr> in
      if emit_raises E (emit_calls w) then Inl (EmitError, w1)
      else Inr (w1\<lparr>outbox := outbox w1 @ [\<lparr>event = ev, payload = pl, recipients = rooms w target\<rparr>]\<rparr>))"

definition enter_own_room :: "string \<Rightarrow> world \<Rightarrow> world" where
  "enter_own_room sid w = join_room sid sid w"

definition leave_all :: "string \<Rightarrow> world \<Rightarrow> world" where
  "leave_all sid w = w\<lparr>rooms := (\<lambda>room. rooms w room - {sid})\<rparr>"

section \<open>The program\<close>

subsection \<open>Room helper\<close>

definition get_room :: "int \<Rightarrow> int \<Rightarrow> string" where
  "get_room user1 user2 = ''room_'' @ str_int (min user1 user2) @ ''_'' @ str_int (max user1 user2)"

subsection \<open>Message table\<close>

text \<open>
  The table is kept by SQLite (\<^verbatim>\<open>sqlite:///chat.db\<close>); the list holds its rows in
  insertion order. Integer columns hold signed 64-bit values: binding an integer outside
  that range raises \<^verbatim>\<open>OverflowError\<close> and nothing is written. The integer primary key
  of a new row is 1 in an empty table and otherwise one more than the largest key in the
  table; when the largest key is already \<open>2\<^sup>6\<^sup>3 - 1\<close> the engine searches at random among
  the keys from 1 to \<open>2\<^sup>6\<^sup>2\<close> for an unused one and fails with "database or disk is full"
  when it finds none. The column default reads the clock before the insert.
\<close>

definition max_rowid :: int where
  "max_rowid = 2 ^ 63 - 1"

definition fits_int64 :: "int \<Rightarrow> bool" where
  "fits_int64 i \<longleftrightarrow> - (2 ^ 63) \<le> i \<and> i \<le> max_rowid"

definition last_rowid :: "message list \<Rightarrow> int" where
  "last_rowid tbl = (case map message_id tbl of [] \<Rightarrow> 0 | i # ids \<Rightarrow> fold max ids i)"

definition new_rowid :: "env \<Rightarrow> message list \<Rightarrow> int option" where
  "new_rowid E tbl =
     (if last_rowid tbl < max_rowid then Some (last_rowid tbl + 1)
      else case random_rowid E tbl of
             None \<Rightarrow> None
           | Some i \<Rightarrow> if 1 \<le> i \<and> i \<le> 2 ^ 62 \<and> i \<notin> set (map message_id tbl) then Some i
                       else None)"

definition db_add :: "env \<Rightarrow> int \<Rightarrow> int \<Rightarrow> string \<Rightarrow> world \<Rightarrow> (message \<times> world) outcome" where
  "db_add E s r txt w =
     (let (t, w1) = now E w in
      if \<not> (fits_int64 s \<and> fits_int64 r) then Inl (OverflowError, w1)
      else case new_rowid E (messages w1) of
             None \<Rightarrow> Inl (OperationalError, w1)
           | Some i \<Rightarrow>
               (let msg = \<lparr>message_id = i, sender_id = s, receiver_id = r,
                             body = txt, timestamp = t\<rparr>
                in Inr (msg, w1\<lparr>messages := messages w1 @ [msg]\<rparr>)))"

subsection \<open>Socket.IO event handlers\<close>

definition truthy :: "string option \<Rightarrow> bool" where
  "truthy u = (case u of None \<Rightarrow> False | Some s \<Rightarrow> s \<noteq> [])"

definition handle_connect :: "env \<Rightarrow> world \<Rightarrow> string \<Rightarrow> string option \<Rightarrow> world outcome" where
  "handle_connect E w sid user_id =
     (if truthy user_id then
        emit E ''connected'' [(''message'', JStr ''Connected to chat server'')] sid
          (w\<lparr>connected_users := dict_set (connected_users w) (the user_id) sid\<rparr>)
      else Inr w)"

definition handle_disconnect :: "world \<Rightarrow> string \<Rightarrow> world" where
  "handle_disconnect w sid =
     (let user_id = map_option fst (find (\<lambda>p. snd p = sid) (connected_users w)) in
      if truthy user_id then w\<lparr>connected_users := dict_del (connected_users w) (the user_id)\<rparr>
      else w)"

definition join_body :: "env \<Rightarrow> world \<Rightarrow> string \<Rightarrow> (string, pyval) dict \<Rightarrow> world outcome" where
  "join_body E w sid data =
     (case int_field E data ''sender_id'' of Inl e \<Rightarrow> Inl (e, w) | Inr sender \<Rightarrow>
     (case int_field E data ''receiver_id'' of Inl e \<Rightarrow> Inl (e, w) | Inr receiver \<Rightarrow>
     (case subscript data ''sender_username'' of Inl e \<Rightarrow> Inl (e, w) | Inr sender_username \<Rightarrow>
      (let room = get_room sender receiver;
           w1 = join_room sid room w;
           (t1, w2) = now E w1
       in (case emit E ''system''
                  [(''message'', JStr (py_str sender_username @ '' joined the chat'')),
                   (''timestamp'', JTime t1)] room w2 of
             Inl x \<Rightarrow> Inl x
           | Inr w3 \<Rightarrow>
               (let (t2, w4) = now E w3
                in emit E ''joined_room''
                     [(''room'', JStr room),
                      (''message'', JStr (''You joined chat with user '' @ str_int receiver)),
                      (''timestamp'', JTime t2)] sid w4))))))"

definition handle_join :: "env \<Rightarrow> world \<Rightarrow> string \<Rightarrow> (string, pyval) dict \<Rightarrow> world outcome" where
  "handle_join E w sid data =
     (case join_body E w sid data of
        Inr w' \<Rightarrow> Inr w'
      | Inl (e, w') \<Rightarrow> emit E ''error'' [(''message'', JStr ''Failed to join room'')] sid w')"

definition send_body :: "env \<Rightarrow> world \<Rightarrow> string \<Rightarrow> (string, pyval) dict \<Rightarrow> world outcome" where
  "send_body E w sid data =
     (case int_field E data ''sender_id'' of Inl e \<Rightarrow> Inl (e, w) | Inr sender \<Rightarrow>
     (case int_field E data ''receiver_id'' of Inl e \<Rightarrow> Inl (e, w) | Inr receiver \<Rightarrow>
     (case subscript data ''message'' of Inl e \<Rightarrow> Inl (e, w) | Inr raw \<Rightarrow>
     (case py_strip raw of Inl e \<Rightarrow> Inl (e, w) | Inr message_text \<Rightarrow>
      (if message_text = [] then
         emit E ''error'' [(''message'', JStr ''Message cannot be empty'')] sid w
       else
         (case db_add E sender receiver message_text w of
            Inl x \<Rightarrow> Inl x
          | Inr (msg, w1) \<Rightarrow>
              (let room = get_room sender receiver
               in (case emit E ''receive_message''
                          [(''sender_id'', JInt sender),
                           (''receiver_id'', JInt receiver),
                           (''message'', JStr message_text),
                           (''timestamp'', JTime (timestamp msg)),
                           (''message_id'', JInt (message_id msg))] room w1 of
                     Inl x \<Rightarrow> Inl x
                   | Inr w2 \<Rightarrow>
                       emit E ''message_sent''
                         [(''message'', JStr ''Message delivered''),
                          (''timestamp'', JTime (timestamp msg)),
                          (''message_id'', JInt (message_id msg))] sid w2))))))))"

definition handle_send_message :: "env \<Rightarrow> world \<Rightarrow> string \<Rightarrow> (string, pyval) dict \<Rightarrow> world outcome" where
  "handle_send_message E w sid data =
     (case send_body E w sid data of
        Inr w' \<Rightarrow> Inr w'
      | Inl (e, w') \<Rightarrow> emit E ''error'' [(''message'', JStr ''Failed to send message'')] sid w')"

subsection \<open>History route\<close>

text \<open>
  The query filters the table and orders the rows by timestamp alone. SQLite reads the
  table in the order of its integer primary key and its sorter keeps rows of equal
  timestamp in the order read. Binding an identifier outside the signed 64-bit range
  raises \<^verbatim>\<open>OverflowError\<close>, which the handler turns into the response 500. The response
  200 lists the five columns of each row.
\<close>

datatype response = Ok200 "message list" | Error500 string

definition get_messages :: "message list \<Rightarrow> int \<Rightarrow> int \<Rightarrow> response" where
  "get_messages tbl user1 user2 =
     (if \<not> (fits_int64 user1 \<and> fits_int64 user2) then Error500 ''Failed to fetch messages''
      else Ok200
        (sort_key timestamp
          (filter (\<lambda>m. (sender_id m = user1 \<and> receiver_id m = user2) \<or>
                       (sender_id m = user2 \<and> receiver_id m = user1))
             (sort_key message_id tbl))))"

subsection \<open>Runs of the server\<close>

datatype request =
    Connect string "string option"
  | Disconnect string
  | Join string "(string, pyval) dict"
  | SendMessage string "(string, pyval) dict"

fun step :: "env \<Rightarrow> world \<Rightarrow> request \<Rightarrow> world" where
  "step E w (Connect sid user_id) = final (handle_connect E (enter_own_room sid w) sid user_id)"
| "step E w (Disconnect sid) = leave_all sid (handle_disconnect w sid)"
| "step E w (Join sid data) = final (handle_join E w sid data)"
| "step E w (SendMessage sid data) = final (handle_send_message E w sid data)"

definition run :: "env \<Rightarrow> world \<Rightarrow> request list \<Rightarrow> world" where
  "run E w reqs = foldl (step E) w reqs"

subsection \<open>Concurrent sends\<close>

text \<open>
  Handlers of different connections run concurrently. A run of
  \<^verbatim>\<open>handle_send_message\<close> is cut at its calls into the database and the Socket.IO
  server: the validation, the insert (one transaction of the database), the broadcast,
  the acknowledgement, the error event for an empty text, and the except clause. A
  pending send is what remains to be done of one run; \<open>advance\<close> does its next stage.
\<close>

datatype pending =
    Validate string "(string, pyval) dict"
  | Insert string int int string
  | Broadcast string message
  | Acknowledge string message
  | Reject string
  | Recover string

fun advance :: "env \<Rightarrow> world \<Rightarrow> pending \<Rightarrow> world \<times> pending option" where
  "advance E w (Validate sid data) =
     (case int_field E data ''sender_id'' of Inl e \<Rightarrow> (w, Some (Recover sid)) | Inr sender \<Rightarrow>
     (case int_field E data ''receiver_id'' of Inl e \<Rightarrow> (w, Some (Recover sid)) | Inr receiver \<Rightarrow>
     (case subscript data ''message'' of Inl e \<Rightarrow> (w, Some (Recover sid)) | Inr raw \<Rightarrow>
     (case py_strip raw of Inl e \<Rightarrow> (w, Some (Recover sid)) | Inr message_text \<Rightarrow>
      (if message_text = [] then (w, Some (Reject sid))
       else (w, Some (Insert sid sender receiver message_text)))))))"
| "advance E w (Insert sid sender receiver message_text) =
     (case db_add E sender receiver message_text w of
        Inl (e, w') \<Rightarrow> (w', Some (Recover sid))
      | Inr (msg, w') \<Rightarrow> (w', Some (Broadcast sid msg)))"
| "advance E w (Broadcast sid msg) =
     (case emit E ''receive_message''
             [(''sender_id'', JInt (sender_id msg)),
              (''receiver_id'', JInt (receiver_id msg)),
              (''message'', JStr (body msg)),
              (''timestamp'', JTime (timestamp msg)),
              (''message_id'', JInt (message_id msg))]
             (get_room (sender_id msg) (receiver_id msg)) w of
        Inl (e, w') \<Rightarrow> (w', Some (Recover sid))
      | Inr w' \<Rightarrow> (w', Some (Acknowledge sid msg)))"
| "advance E w (Acknowledge sid msg) =
     (case emit E ''message_sent''
             [(''message'', JStr ''Message delivered''),
              (''timestamp'', JTime (timestamp msg)),
              (''message_id'', JInt (message_id msg))] sid w of
        Inl (e, w') \<Rightarrow> (w', Some (Recover sid))
      | Inr w' \<Rightarrow> (w', None))"
| "advance E w (Reject sid) =
     (case emit E ''error'' [(''message'', JStr ''Message cannot be empty'')] sid w of
        Inl (e, w') \<Rightarrow> (w', Some (Recover sid))
      | Inr w' \<Rightarrow> (w', None))"
| "advance E w (Recover sid) =
     (final (emit E ''error'' [(''message'', JStr ''Failed to send message'')] sid w), None)"

text \<open>
  The server holds the state and the pool of sends in progress. A request arrives, or
  the send at some position of the pool does its next stage; a send request joins the
  pool, every other request runs at once. A schedule is any list of such actions.
\<close>

datatype action = Arrive request | Advance nat

fun exec :: "env \<Rightarrow> world \<times> pending list \<Rightarrow> action \<Rightarrow> world \<times> pending list" where
  "exec E (w, pool) (Arrive (SendMessage sid data)) = (w, pool @ [Validate sid data])"
| "exec E (w, pool) (Arrive req) = (step E w req, pool)"
| "exec E (w, pool) (Advance i) =
     (if i < length pool then
        (case advance E w (pool ! i) of
           (w', None) \<Rightarrow> (w', take i pool @ drop (Suc i) pool)
         | (w', Some t) \<Rightarrow> (w', pool[i := t]))
      else (w, pool))"

definition interleave :: "env \<Rightarrow> world \<times> pending list \<Rightarrow> action list \<Rightarrow> world \<times> pending list" where
  "interleave E sys acts = foldl (exec E) sys acts"

text \<open>The schedule that runs each request to its end before the next one arrives.\<close>

fun one_at_a_time :: "request \<Rightarrow> action list" where
  "one_at_a_time (SendMessage sid data) = Arrive (SendMessage sid data) # replicate 5 (Advance 0)"
| "one_at_a_time req = [Arrive req]"

section \<open>Properties and expected events\<close>


text \<open>One atomic action leaves the table as it is or adds one row at its end, under the
  id the engine chooses for the table as it is at that moment.\<close>

definition table_step :: "env \<Rightarrow> world \<Rightarrow> world \<Rightarrow> bool" where
  "table_step E w w' \<longleftrightarrow>
     messages w' = messages w \<or>
     (\<exists>row. messages w' = messages w @ [row] \<and> new_rowid E (messages w) = Some (message_id row))"

text \<open>Ascending by timestamp, ties broken by ascending id.\<close>

definition ordered_by_timestamp_then_id :: "message list \<Rightarrow> bool" where
  "ordered_by_timestamp_then_id ms =
     sorted_wrt (\<lambda>x y. timestamp x < timestamp y \<or>
                        (timestamp x = timestamp y \<and> message_id x \<le> message_id y)) ms"

text \<open>Every row a handler run adds carries the clock reading taken in that run, and so
  does every \<^verbatim>\<open>timestamp\<close> entry of the payloads it emits.\<close>

definition server_stamped :: "env \<Rightarrow> world \<Rightarrow> world \<Rightarrow> bool" where
  "server_stamped E w w' \<longleftrightarrow>
     (\<exists>new evs. messages w' = messages w @ new \<and> outbox w' = outbox w @ evs \<and>
        (\<forall>m \<in> set new. timestamp m = clock E (ticks w)) \<and>
        (\<forall>e \<in> set evs. \<forall>v. dict_get (payload e) ''timestamp'' = Some v \<longrightarrow>
            v = JTime (clock E (ticks w))))"

text \<open>The row a valid send stores, and the events the handlers emit, with their
  addressees.\<close>

definition stored :: "env \<Rightarrow> world \<Rightarrow> int \<Rightarrow> int \<Rightarrow> string \<Rightarrow> message" where
  "stored E w s r txt = \<lparr>message_id = last_rowid (messages w) + 1, sender_id = s, receiver_id = r,
     body = txt, timestamp = clock E (ticks w)\<rparr>"

definition receive_message_event :: "world \<Rightarrow> message \<Rightarrow> emission" where
  "receive_message_event w msg =
     \<lparr>event = ''receive_message'',
      payload = [(''sender_id'', JInt (sender_id msg)),
                 (''receiver_id'', JInt (receiver_id msg)),
                 (''message'', JStr (body msg)),
                 (''timestamp'', JTime (timestamp msg)),
                 (''message_id'', JInt (message_id msg))],
      recipients = rooms w (get_room (sender_id msg) (receiver_id msg))\<rparr>"

definition message_sent_event :: "world \<Rightarrow> string \<Rightarrow> message \<Rightarrow> emission" where
  "message_sent_event w sid msg =
     \<lparr>event = ''message_sent'',
      payload = [(''message'', JStr ''Message delivered''),
                 (''timestamp'', JTime (timestamp msg)),
                 (''message_id'', JInt (message_id msg))],
      recipients = rooms w sid\<rparr>"

definition system_event :: "world \<Rightarrow> string \<Rightarrow> string \<Rightarrow> pyval \<Rightarrow> int \<Rightarrow> emission" where
  "system_event w sid room name t =
     \<lparr>event = ''system'',
      payload = [(''message'', JStr (py_str name @ '' joined the chat'')), (''timestamp'', JTime t)],
      recipients = insert sid (rooms w room)\<rparr>"

definition joined_room_event :: "string \<Rightarrow> string \<Rightarrow> int \<Rightarrow> int \<Rightarrow> emission" where
  "joined_room_event sid room receiver t =
     \<lparr>event = ''joined_room'',
      payload = [(''room'', JStr room),
                 (''message'', JStr (''You joined chat with user '' @ str_int receiver)),
                 (''timestamp'', JTime t)],
      recipients = {sid}\<rparr>"

section \<open>Concrete inputs\<close>

text \<open>The state at program start with a fresh database; a transport that never raises,
  one on which the first call of \<^verbatim>\<open>emit\<close> raises, and a clock that gives the same
  reading twice.\<close>

definition initial_world :: world where
  "initial_world = \<lparr>messages = [], connected_users = [], rooms = (\<lambda>_. {}), outbox = [],
     ticks = 0, emit_calls = 0\<rparr>"

definition reliable_env :: env where
  "reliable_env = \<lparr>int_of_str = (\<lambda>_. None), clock = (\<lambda>n. 100 + int n),
     emit_raises = (\<lambda>_. False), random_rowid = (\<lambda>_. None)\<rparr>"

definition failing_env :: env where
  "failing_env = \<lparr>int_of_str = (\<lambda>_. None), clock = (\<lambda>n. 100 + int n),
     emit_raises = (\<lambda>n. n = 0), random_rowid = (\<lambda>_. None)\<rparr>"

definition coarse_clock_env :: env where
  "coarse_clock_env = \<lparr>int_of_str = (\<lambda>_. None), clock = (\<lambda>_. 100), emit_raises = (\<lambda>_. False), random_rowid = (\<lambda>_. None)\<rparr>"

text \<open>Participants 7 and 8 connected as \<open>s1\<close> and \<open>s2\<close>: both in their room, and
  only 8 in it.\<close>

definition alice_online :: world where
  "alice_online = \<lparr>messages = [], connected_users = [(''7'', ''s1''), (''8'', ''s2'')],
     rooms = (\<lambda>_. {})(''s1'' := {''s1''}, ''s2'' := {''s2''}, ''room_7_8'' := {''s1'', ''s2''}),
     outbox = [], ticks = 0, emit_calls = 0\<rparr>"

definition bob_waiting :: world where
  "bob_waiting = \<lparr>messages = [], connected_users = [(''7'', ''s1''), (''8'', ''s2'')],
     rooms = (\<lambda>_. {})(''s1'' := {''s1''}, ''s2'' := {''s2''}, ''room_7_8'' := {''s2''}),
     outbox = [], ticks = 0, emit_calls = 0\<rparr>"

text \<open>Requests.\<close>

definition hi_from_1_to_2 :: "(string, pyval) dict" where
  "hi_from_1_to_2 = [(''sender_id'', PInt 1), (''receiver_id'', PInt 2), (''message'', PStr '' hi '')]"

definition hi_from_7_to_8 :: "(string, pyval) dict" where
  "hi_from_7_to_8 = [(''sender_id'', PInt 7), (''receiver_id'', PInt 8), (''message'', PStr '' hi '')]"

definition blank_from_7_to_8 :: "(string, pyval) dict" where
  "blank_from_7_to_8 = [(''sender_id'', PInt 7), (''receiver_id'', PInt 8), (''message'', PStr ''  '')]"

definition join_7_8 :: "(string, pyval) dict" where
  "join_7_8 = [(''sender_id'', PInt 7), (''receiver_id'', PInt 8), (''sender_username'', PStr ''Alice'')]"

text \<open>The two rows that two sends from 1 to 2 store within one clock reading.\<close>

definition first_hi :: message where
  "first_hi = \<lparr>message_id = 1, sender_id = 1, receiver_id = 2, body = ''hi'', timestamp = 100\<rparr>"

definition second_hi :: message where
  "second_hi = \<lparr>message_id = 2, sender_id = 1, receiver_id = 2, body = ''hi'', timestamp = 100\<rparr>"

text \<open>Two sends in the same room, from 7 on \<open>s1\<close> and from 8 on \<open>s2\<close>, scheduled so
  that the second to arrive is the first to insert.\<close>

definition hi_from_8_to_7 :: "(string, pyval) dict" where
  "hi_from_8_to_7 = [(''sender_id'', PInt 8), (''receiver_id'', PInt 7), (''message'', PStr ''hello'')]"

definition crossing_sends :: "action list" where
  "crossing_sends =
     [Arrive (SendMessage ''s1'' hi_from_7_to_8), Arrive (SendMessage ''s2'' hi_from_8_to_7),
      Advance 0, Advance 1, Advance 1, Advance 0, Advance 0, Advance 1, Advance 0, Advance 0]"

text \<open>The same two connections, with one row already in the table.\<close>

definition alice_with_history :: world where
  "alice_with_history = \<lparr>messages = [first_hi], connected_users = [(''7'', ''s1''), (''8'', ''s2'')],
     rooms = (\<lambda>_. {})(''s1'' := {''s1''}, ''s2'' := {''s2''}, ''room_7_8'' := {''s1'', ''s2''}),
     outbox = [], ticks = 0, emit_calls = 0\<rparr>"

text \<open>A send whose sender id does not fit a 64-bit integer.\<close>

definition hi_from_too_big :: "(string, pyval) dict" where
  "hi_from_too_big = [(''sender_id'', PInt (2 ^ 63)), (''receiver_id'', PInt 8), (''message'', PStr '' hi '')]"

section \<open>Room names\<close>

subsection \<open>Decimal rendering is injective\<close>

lemma of_char_digit: "d < 10 \<Longrightarrow> (of_char (digit_char d) :: nat) = 48 + d"
  by (simp add: digit_char_def)

lemma digit_char_inj: "a < 10 \<Longrightarrow> b < 10 \<Longrightarrow> digit_char a = digit_char b \<Longrightarrow> a = b"
proof -
  assume a: "a < 10" and b: "b < 10" and e: "digit_char a = digit_char b"
  from e have "(of_char (digit_char a) :: nat) = of_char (digit_char b)" by simp
  with a b show "a = b" by (simp add: of_char_digit)
qed

lemma digit_char_not_special:
  assumes d: "d < 10" shows "digit_char d \<noteq> CHR ''_''" and "digit_char d \<noteq> CHR ''-''"
proof -
  have e: "(of_char (digit_char d) :: nat) = 48 + d" using d by (rule of_char_digit)
  show "digit_char d \<noteq> CHR ''_''"
  proof
    assume "digit_char d = CHR ''_''"
    then have "(of_char (digit_char d) :: nat) = of_char CHR ''_''" by simp
    with e d show False by simp
  qed
  show "digit_char d \<noteq> CHR ''-''"
  proof
    assume "digit_char d = CHR ''-''"
    then have "(of_char (digit_char d) :: nat) = of_char CHR ''-''" by simp
    with e d show False by simp
  qed
qed

lemma str_nat_small: "n < 10 \<Longrightarrow> str_nat n = [digit_char n]"
  by (simp add: str_nat.simps)

lemma str_nat_big: "\<not> n < 10 \<Longrightarrow> str_nat n = str_nat (n div 10) @ [digit_char (n mod 10)]"
  by (subst str_nat.simps) simp

lemma str_nat_nonempty: "str_nat n \<noteq> []"
  by (subst str_nat.simps) simp

lemma str_nat_chars: "c \<in> set (str_nat n) \<Longrightarrow> \<exists>d<10. c = digit_char d"
proof (induction n rule: str_nat.induct)
  case (1 n)
  show ?case
  proof (cases "n < 10")
    case True
    with "1.prems" show ?thesis by (auto simp: str_nat_small)
  next
    case False
    with "1.prems" have "c \<in> set (str_nat (n div 10)) \<or> c = digit_char (n mod 10)"
      by (auto simp: str_nat_big)
    then show ?thesis
    proof
      assume "c \<in> set (str_nat (n div 10))"
      with False "1.IH" show ?thesis by simp
    next
      assume "c = digit_char (n mod 10)"
      moreover have "n mod 10 < 10" by simp
      ultimately show ?thesis by blast
    qed
  qed
qed

lemma str_nat_inj: "str_nat n = str_nat m \<Longrightarrow> n = m"
proof (induction n arbitrary: m rule: str_nat.induct)
  case (1 n)
  show ?case
  proof (cases "n < 10")
    case n: True
    show ?thesis
    proof (cases "m < 10")
      case True
      with n "1.prems" show ?thesis by (simp add: str_nat_small digit_char_inj)
    next
      case False
      with n "1.prems" have "[digit_char n] = str_nat (m div 10) @ [digit_char (m mod 10)]"
        by (simp add: str_nat_small str_nat_big)
      then show ?thesis using str_nat_nonempty [of "m div 10"] by simp
    qed
  next
    case n: False
    show ?thesis
    proof (cases "m < 10")
      case True
      with n "1.prems" have "str_nat (n div 10) @ [digit_char (n mod 10)] = [digit_char m]"
        by (simp add: str_nat_small str_nat_big)
      then show ?thesis using str_nat_nonempty [of "n div 10"] by simp
    next
      case False
      with n "1.prems" have e: "str_nat (n div 10) = str_nat (m div 10)"
        and d: "digit_char (n mod 10) = digit_char (m mod 10)"
        by (simp_all add: str_nat_big)
      from e n "1.IH" have "n div 10 = m div 10" by simp
      moreover from d have "n mod 10 = m mod 10" by (rule digit_char_inj [rotated 2]) simp_all
      ultimately show ?thesis by (metis div_mult_mod_eq)
    qed
  qed
qed

lemma str_nat_no_minus: "CHR ''-'' \<notin> set (str_nat n)"
proof
  assume "CHR ''-'' \<in> set (str_nat n)"
  then obtain d where "d < 10" and "CHR ''-'' = digit_char d"
    using str_nat_chars by blast
  with digit_char_not_special(2) [of d] show False by simp
qed

lemma str_nat_no_underscore: "CHR ''_'' \<notin> set (str_nat n)"
proof
  assume "CHR ''_'' \<in> set (str_nat n)"
  then obtain d where "d < 10" and "CHR ''_'' = digit_char d"
    using str_nat_chars by blast
  with digit_char_not_special(1) [of d] show False by simp
qed

lemma str_int_inj: "str_int i = str_int j \<Longrightarrow> i = j"
proof -
  assume e: "str_int i = str_int j"
  have hd_nat: "\<And>n. hd (str_nat n) \<noteq> CHR ''-''"
    using str_nat_no_minus str_nat_nonempty by (metis hd_in_set)
  show "i = j"
  proof (cases "i < 0")
    case i: True
    show ?thesis
    proof (cases "j < 0")
      case True
      with i e have "str_nat (nat (- i)) = str_nat (nat (- j))" by (simp add: str_int_def)
      then have "nat (- i) = nat (- j)" by (rule str_nat_inj)
      with i True show ?thesis by simp
    next
      case False
      with i e have "CHR ''-'' # str_nat (nat (- i)) = str_nat (nat j)" by (simp add: str_int_def)
      then have "hd (str_nat (nat j)) = CHR ''-''" by (metis list.sel(1))
      with hd_nat show ?thesis by blast
    qed
  next
    case i: False
    show ?thesis
    proof (cases "j < 0")
      case True
      with i e have "str_nat (nat i) = CHR ''-'' # str_nat (nat (- j))" by (simp add: str_int_def)
      then have "hd (str_nat (nat i)) = CHR ''-''" by simp
      with hd_nat show ?thesis by blast
    next
      case False
      with i e have "str_nat (nat i) = str_nat (nat j)" by (simp add: str_int_def)
      then have "nat i = nat j" by (rule str_nat_inj)
      with i False show ?thesis by simp
    qed
  qed
qed

lemma str_int_no_underscore: "CHR ''_'' \<notin> set (str_int i)"
  by (simp add: str_int_def str_nat_no_underscore)

lemma split_at_separator:
  "xs @ c # ys = xs' @ c # ys' \<Longrightarrow> c \<notin> set xs \<Longrightarrow> c \<notin> set xs' \<Longrightarrow> xs = xs' \<and> ys = ys'"
proof (induction xs arbitrary: xs')
  case Nil
  then show ?case by (cases xs') auto
next
  case (Cons x xs)
  then show ?case by (cases xs') auto
qed

lemma get_room_min_max:
  assumes "get_room a b = get_room c d"
  shows "min a b = min c d \<and> max a b = max c d"
proof -
  from assms have "str_int (min a b) @ CHR ''_'' # str_int (max a b)
      = str_int (min c d) @ CHR ''_'' # str_int (max c d)"
    by (simp add: get_room_def)
  then have "str_int (min a b) = str_int (min c d) \<and> str_int (max a b) = str_int (max c d)"
    by (rule split_at_separator) (rule str_int_no_underscore)+
  then show ?thesis by (simp add: str_int_inj)
qed

subsection \<open>The room helper\<close>

text \<open>
  Claim C2. For all integer participant identifiers the room name does not depend on the
  order of the two arguments, and two calls give the same room name exactly when the
  unordered pairs of identifiers are the same: distinct pairs never share a room.
\<close>

theorem get_room_commutative_injective:
  "get_room a b = get_room b a \<and> (get_room a b = get_room c d \<longleftrightarrow> {a, b} = {c, d})"
proof (intro conjI iffI)
  show "get_room a b = get_room b a" by (simp add: get_room_def min.commute max.commute)
next
  assume "get_room a b = get_room c d"
  then have "min a b = min c d \<and> max a b = max c d" by (rule get_room_min_max)
  then show "{a, b} = {c, d}" by (auto simp: min_def max_def split: if_splits)
next
  assume "{a, b} = {c, d}"
  then have "(a = c \<and> b = d) \<or> (a = d \<and> b = c)" by (auto simp: doubleton_eq_iff)
  then show "get_room a b = get_room c d" by (auto simp: get_room_def min.commute max.commute)
qed

lemma get_room_example:
  "get_room 2 1 = ''room_1_2'' \<and> get_room 1 2 = get_room 2 1 \<and> get_room 1 2 \<noteq> get_room 1 12"
  by code_simp

section \<open>Connecting\<close>

text \<open>
  Claim C10. A connect without a participant id (absent or empty) leaves the registry as
  it was and emits nothing; the handler returns normally, and the connection stays
  entered in its own room.
\<close>

theorem connect_without_user_id:
  "handle_connect E w sid None = Inr w \<and>
   handle_connect E w sid (Some []) = Inr w \<and>
   connected_users (step E w (Connect sid None)) = connected_users w \<and>
   outbox (step E w (Connect sid None)) = outbox w \<and>
   sid \<in> rooms (step E w (Connect sid None)) sid"
  by (simp add: handle_connect_def truthy_def final_def enter_own_room_def join_room_def)

section \<open>Frame properties of the handlers\<close>

lemma emit_ok:
  "\<not> emit_raises E (emit_calls w) \<Longrightarrow>
   emit E ev pl target w =
     Inr (w\<lparr>emit_calls := Suc (emit_calls w),
            outbox := outbox w @ [\<lparr>event = ev, payload = pl, recipients = rooms w target\<rparr>]\<rparr>)"
  by (simp add: emit_def)

lemma emit_fail:
  "emit_raises E (emit_calls w) \<Longrightarrow>
   emit E ev pl target w = Inl (EmitError, w\<lparr>emit_calls := Suc (emit_calls w)\<rparr>)"
  by (simp add: emit_def)

lemma emit_frame:
  "messages (final (emit E ev pl target w)) = messages w"
  "connected_users (final (emit E ev pl target w)) = connected_users w"
  "rooms (final (emit E ev pl target w)) = rooms w"
  "ticks (final (emit E ev pl target w)) = ticks w"
  "emit_calls (final (emit E ev pl target w)) = Suc (emit_calls w)"
  by (simp_all add: emit_def final_def Let_def)

lemma final_Inr [simp]: "final (Inr w) = w"
  by (simp add: final_def)

lemma final_Inl [simp]: "final (Inl (e, w)) = w"
  by (simp add: final_def)

lemma join_body_frame:
  "join_body E w sid data = r \<Longrightarrow>
     messages (final r) = messages w \<and> connected_users (final r) = connected_users w"
  by (auto simp: join_body_def join_room_def now_def emit_def Let_def
           split: sum.splits prod.splits if_splits)

lemma handle_join_frame:
  "messages (final (handle_join E w sid data)) = messages w \<and>
   connected_users (final (handle_join E w sid data)) = connected_users w"
proof (cases "join_body E w sid data")
  case (Inl x)
  obtain e w' where x: "x = (e, w')" by (cases x)
  from join_body_frame [OF Inl] x have "messages w' = messages w \<and> connected_users w' = connected_users w"
    by simp
  with Inl x show ?thesis by (simp add: handle_join_def emit_frame)
next
  case (Inr w')
  from join_body_frame [OF Inr] Inr show ?thesis by (simp add: handle_join_def)
qed

lemma send_body_users:
  "send_body E w sid data = r \<Longrightarrow> connected_users (final r) = connected_users w"
  by (auto simp: send_body_def db_add_def now_def emit_def Let_def
           split: sum.splits prod.splits if_splits option.splits)

lemma handle_send_message_users:
  "connected_users (final (handle_send_message E w sid data)) = connected_users w"
proof (cases "send_body E w sid data")
  case (Inl x)
  obtain e w' where x: "x = (e, w')" by (cases x)
  from send_body_users [OF Inl] x have "connected_users w' = connected_users w" by simp
  with Inl x show ?thesis by (simp add: handle_send_message_def emit_frame)
next
  case (Inr w')
  from send_body_users [OF Inr] Inr show ?thesis by (simp add: handle_send_message_def)
qed

lemma keys_dict_set: "set (map fst (dict_set d k v)) = insert k (set (map fst d))"
  by (induction d) auto

lemma distinct_dict_set: "distinct (map fst d) \<Longrightarrow> distinct (map fst (dict_set d k v))"
proof (induction d)
  case Nil
  then show ?case by simp
next
  case (Cons p ps)
  then show ?case using keys_dict_set [of ps k v] by auto
qed

lemma distinct_dict_del: "distinct (map fst d) \<Longrightarrow> distinct (map fst (dict_del d k))"
  by (simp add: dict_del_def distinct_map_filter)

lemma dict_get_dict_set: "dict_get (dict_set d k v) k = Some v"
  by (induction d) (auto simp: dict_get_def)

lemma dict_get_dict_del: "dict_get (dict_del d k) k = None"
  by (induction d) (auto simp: dict_get_def dict_del_def)

lemma step_distinct_users:
  "distinct (map fst (connected_users w)) \<Longrightarrow> distinct (map fst (connected_users (step E w req)))"
proof (cases req)
  case (Connect sid user_id)
  assume "distinct (map fst (connected_users w))"
  with Connect show ?thesis
    by (simp add: handle_connect_def emit_frame enter_own_room_def join_room_def distinct_dict_set)
next
  case (Disconnect sid)
  assume "distinct (map fst (connected_users w))"
  with Disconnect show ?thesis
    by (simp add: handle_disconnect_def leave_all_def Let_def distinct_dict_del)
next
  case (Join sid data)
  assume "distinct (map fst (connected_users w))"
  with Join show ?thesis by (simp add: handle_join_frame)
next
  case (SendMessage sid data)
  assume "distinct (map fst (connected_users w))"
  with SendMessage show ?thesis by (simp add: handle_send_message_users)
qed

lemma run_distinct_users:
  "distinct (map fst (connected_users w)) \<Longrightarrow> distinct (map fst (connected_users (run E w reqs)))"
  unfolding run_def
  by (induction reqs arbitrary: w) (simp_all add: step_distinct_users)

text \<open>
  Claim C8. The registry maps each participant identifier to at most one connection: after
  every sequence of requests the keys of the registry are pairwise distinct, and a connect
  with an identifier puts the new connection in place of whatever was registered for that
  identifier before.
\<close>

theorem registry_single_valued:
  "distinct (map fst (connected_users w)) \<Longrightarrow>
     distinct (map fst (connected_users (run E w reqs))) \<and>
     (uid \<noteq> [] \<longrightarrow>
        dict_get (connected_users (step E (run E w reqs) (Connect sid (Some uid)))) uid = Some sid)"
  by (simp add: run_distinct_users handle_connect_def truthy_def emit_frame
        enter_own_room_def join_room_def dict_get_dict_set)

theorem registry_single_valued_witness:
  "distinct (map fst (connected_users initial_world)) \<and>
   distinct (map fst (connected_users
     (run reliable_env initial_world [Connect ''s1'' (Some ''7''), Connect ''s2'' (Some ''8'')]))) \<and>
   dict_get (connected_users
     (step reliable_env
        (run reliable_env initial_world [Connect ''s1'' (Some ''7''), Connect ''s2'' (Some ''8'')])
        (Connect ''s3'' (Some ''7'')))) ''7'' = Some ''s3''"
  using registry_single_valued [of initial_world reliable_env
      "[Connect ''s1'' (Some ''7''), Connect ''s2'' (Some ''8'')]" "''7''" "''s3''"]
  by (simp add: initial_world_def)

section \<open>Message ids\<close>






lemma new_rowid_next:
  "last_rowid tbl < max_rowid \<Longrightarrow> new_rowid E tbl = Some (last_rowid tbl + 1)"
  by (simp add: new_rowid_def)



lemma db_add_Inr:
  "db_add E s r txt w = Inr (msg, w') \<Longrightarrow>
     w' = w\<lparr>ticks := Suc (ticks w), messages := messages w @ [msg]\<rparr> \<and>
     new_rowid E (messages w) = Some (message_id msg) \<and>
     timestamp msg = clock E (ticks w) \<and> sender_id msg = s \<and> receiver_id msg = r \<and> body msg = txt"
  by (auto simp: db_add_def now_def Let_def split: if_splits option.splits)

lemma db_add_ok:
  "fits_int64 s \<Longrightarrow> fits_int64 r \<Longrightarrow> last_rowid (messages w) < max_rowid \<Longrightarrow>
   db_add E s r txt w =
     Inr (stored E w s r txt, w\<lparr>ticks := Suc (ticks w), messages := messages w @ [stored E w s r txt]\<rparr>)"
  by (simp add: db_add_def now_def new_rowid_next stored_def Let_def)

lemma db_add_overflow:
  "\<not> (fits_int64 s \<and> fits_int64 r) \<Longrightarrow>
   db_add E s r txt w = Inl (OverflowError, w\<lparr>ticks := Suc (ticks w)\<rparr>)"
  by (auto simp: db_add_def now_def Let_def)

lemma table_step_refl: "messages w' = messages w \<Longrightarrow> table_step E w w'"
  by (simp add: table_step_def)








lemma interleave_Cons:
  "interleave E (w, pool) (a # acts) = interleave E (exec E (w, pool) a) acts"
  by (simp add: interleave_def)




subsection \<open>A send that runs alone is the handler\<close>

lemma interleave_idle: "interleave E (w, []) (replicate n (Advance 0)) = (w, [])"
  by (induction n) (simp_all add: interleave_def)

lemma interleave_append:
  "interleave E sys (xs @ ys) = interleave E (interleave E sys xs) ys"
  by (simp add: interleave_def)

lemma alone_Validate:
  "interleave E (w, [Validate sid data]) (replicate 5 (Advance 0)) =
     (final (handle_send_message E w sid data), [])"
  by (auto simp: interleave_def eval_nat_numeral handle_send_message_def send_body_def
           split: sum.splits prod.splits dest!: db_add_Inr)

lemma send_alone:
  "interleave E (w, []) (one_at_a_time (SendMessage sid data)) = (step E w (SendMessage sid data), [])"
  using alone_Validate [of E w sid data]
  by (simp add: interleave_Cons)

lemma request_alone:
  "interleave E (w, []) (one_at_a_time req) = (step E w req, [])"
proof (cases req)
  case (SendMessage sid data)
  then show ?thesis by (simp only: send_alone)
qed (simp_all add: interleave_def)

lemma run_is_interleaving:
  "interleave E (w, []) (concat (map one_at_a_time reqs)) = (run E w reqs, [])"
proof (induction reqs arbitrary: w)
  case Nil
  show ?case by (simp add: interleave_def run_def)
next
  case (Cons req reqs)
  have "interleave E (w, []) (concat (map one_at_a_time (req # reqs))) =
      interleave E (interleave E (w, []) (one_at_a_time req)) (concat (map one_at_a_time reqs))"
    by (simp add: interleave_append)
  also have "\<dots> = interleave E (step E w req, []) (concat (map one_at_a_time reqs))"
    by (simp only: request_alone)
  also have "\<dots> = (run E (step E w req) reqs, [])" by (rule Cons.IH)
  finally show ?case by (simp add: run_def)
qed



lemma crossing_sends_example:
  "map (\<lambda>m. (message_id m, sender_id m))
     (messages (fst (interleave reliable_env (alice_with_history, []) crossing_sends))) =
     [(1, 1), (2, 8), (3, 7)] \<and>
   snd (interleave reliable_env (alice_with_history, []) crossing_sends) = []"
  by code_simp

section \<open>Disconnecting\<close>

lemma find_snd: "find (\<lambda>p. snd p = sid) d = Some p \<Longrightarrow> p \<in> set d \<and> snd p = sid"
  by (induction d) (auto split: if_splits)

lemma find_None_not: "find P d = None \<Longrightarrow> x \<in> set d \<Longrightarrow> \<not> P x"
  by (induction d) (auto split: if_splits)

text \<open>
  Claim C7. When a connection disconnects while it is the one registered for participant
  \<open>A\<close> (a connection registers under the single identifier of its handshake),
  looking up \<open>A\<close> afterwards yields nothing, the connection is a member of no room, and
  nothing is emitted: no other connection receives an event. The rooms are cleared by the
  Socket.IO server, not by the handler.
\<close>

theorem disconnect_cleans_up:
  assumes reg: "dict_get (connected_users w) A = Some sid"
    and A: "A \<noteq> []"
    and only: "\<forall>p \<in> set (connected_users w). snd p = sid \<longrightarrow> fst p = A"
  shows "dict_get (connected_users (step E w (Disconnect sid))) A = None \<and>
         (\<forall>room. sid \<notin> rooms (step E w (Disconnect sid)) room) \<and>
         outbox (step E w (Disconnect sid)) = outbox w"
proof -
  from reg have mem: "(A, sid) \<in> set (connected_users w)"
    by (simp add: dict_get_def map_of_SomeD)
  have "find (\<lambda>p. snd p = sid) (connected_users w) \<noteq> None"
  proof
    assume "find (\<lambda>p. snd p = sid) (connected_users w) = None"
    from find_None_not [OF this mem] show False by simp
  qed
  then obtain p where p: "find (\<lambda>p. snd p = sid) (connected_users w) = Some p" by blast
  from find_snd [OF p] only have "fst p = A" by blast
  with p A have "handle_disconnect w sid = w\<lparr>connected_users := dict_del (connected_users w) A\<rparr>"
    by (simp add: handle_disconnect_def truthy_def)
  then show ?thesis by (simp add: leave_all_def dict_get_dict_del)
qed

theorem disconnect_cleans_up_witness:
  "dict_get (connected_users alice_online) ''7'' = Some ''s1'' \<and>
   dict_get (connected_users (step reliable_env alice_online (Disconnect ''s1''))) ''7'' = None \<and>
   (\<forall>room. ''s1'' \<notin> rooms (step reliable_env alice_online (Disconnect ''s1'')) room) \<and>
   outbox (step reliable_env alice_online (Disconnect ''s1'')) = outbox alice_online"
  using disconnect_cleans_up [of alice_online "''7''" "''s1''" reliable_env]
  by (simp add: alice_online_def dict_get_def)

section \<open>Sending\<close>

lemma send_body_empty:
  assumes msg: "dict_get data ''message'' = Some (PStr txt)" and empty: "strip txt = []"
  shows "(\<exists>e. send_body E w sid data = Inl (e, w)) \<or>
         send_body E w sid data = emit E ''error'' [(''message'', JStr ''Message cannot be empty'')] sid w"
  using msg empty
  by (simp add: send_body_def subscript_def py_strip_def split: sum.splits)

text \<open>
  Claim C4. A send whose message body is empty after trimming never adds a row to the
  message table, whatever the other fields are. The only events the handler emits are
  error events addressed to the sender's own room, that is to the sending connection
  only: at most one, and exactly one when the first call of emit does not raise.
\<close>

theorem empty_message_rejected:
  assumes msg: "dict_get data ''message'' = Some (PStr txt)"
    and empty: "strip txt = []"
    and own: "rooms w sid = {sid}"
  shows "messages (final (handle_send_message E w sid data)) = messages w \<and>
         (\<exists>evs. outbox (final (handle_send_message E w sid data)) = outbox w @ evs \<and>
                length evs \<le> 1 \<and>
                (\<forall>e \<in> set evs. event e = ''error'' \<and> recipients e = {sid}) \<and>
                (\<not> emit_raises E (emit_calls w) \<longrightarrow> length evs = 1))"
proof -
  let ?e1 = "emit E ''error'' [(''message'', JStr ''Message cannot be empty'')] sid w"
  let ?e2 = "emit E ''error'' [(''message'', JStr ''Failed to send message'')] sid w"
  from send_body_empty [OF msg empty, of E w sid]
  consider e where "send_body E w sid data = Inl (e, w)" | "send_body E w sid data = ?e1"
    by blast
  then show ?thesis
  proof cases
    case 1
    then have h: "handle_send_message E w sid data = ?e2"
      by (simp add: handle_send_message_def)
    show ?thesis
    proof (cases "emit_raises E (emit_calls w)")
      case True
      then show ?thesis unfolding h by (simp add: emit_fail)
    next
      case False
      then show ?thesis unfolding h by (simp add: emit_ok own)
    qed
  next
    case 2
    show ?thesis
    proof (cases "emit_raises E (emit_calls w)")
      case False
      with 2 show ?thesis by (simp add: handle_send_message_def emit_ok own)
    next
      case True
      let ?w1 = "w\<lparr>emit_calls := Suc (emit_calls w)\<rparr>"
      from True 2 have h: "handle_send_message E w sid data =
          emit E ''error'' [(''message'', JStr ''Failed to send message'')] sid ?w1"
        by (simp add: handle_send_message_def emit_fail)
      show ?thesis
      proof (cases "emit_raises E (Suc (emit_calls w))")
        case t: True
        with True show ?thesis unfolding h by (simp add: emit_fail)
      next
        case f: False
        with True show ?thesis unfolding h by (simp add: emit_ok own)
      qed
    qed
  qed
qed

theorem empty_message_rejected_witness:
  "dict_get blank_from_7_to_8 ''message'' = Some (PStr ''  '') \<and> strip ''  '' = [] \<and>
   rooms alice_online ''s1'' = {''s1''} \<and>
   messages (final (handle_send_message reliable_env alice_online ''s1'' blank_from_7_to_8)) =
     messages alice_online \<and>
   (\<exists>evs. outbox (final (handle_send_message reliable_env alice_online ''s1'' blank_from_7_to_8)) =
            outbox alice_online @ evs \<and>
          length evs \<le> 1 \<and>
          (\<forall>e \<in> set evs. event e = ''error'' \<and> recipients e = {''s1''}) \<and>
          (\<not> emit_raises reliable_env (emit_calls alice_online) \<longrightarrow> length evs = 1))"
proof -
  have 1: "dict_get blank_from_7_to_8 ''message'' = Some (PStr ''  '')"
    by (simp add: blank_from_7_to_8_def dict_get_def)
  have 2: "strip ''  '' = []"
    by (simp add: strip_def py_isspace_def)
  have 3: "rooms alice_online ''s1'' = {''s1''}"
    by (simp add: alice_online_def)
  from 1 2 3 empty_message_rejected [OF 1 2 3, of reliable_env] show ?thesis by blast
qed

lemma blank_send_example:
  "map event (outbox (final (handle_send_message reliable_env alice_online ''s1'' blank_from_7_to_8))) =
     [''error'']"
  by code_simp

section \<open>Timestamps\<close>

lemma send_body_cong:
  assumes "dict_get data ''sender_id'' = dict_get data' ''sender_id''"
    and "dict_get data ''receiver_id'' = dict_get data' ''receiver_id''"
    and "dict_get data ''message'' = dict_get data' ''message''"
  shows "send_body E w sid data = send_body E w sid data'"
proof -
  from assms have "int_field E data ''sender_id'' = int_field E data' ''sender_id''"
    and "int_field E data ''receiver_id'' = int_field E data' ''receiver_id''"
    and "subscript data ''message'' = subscript data' ''message''"
    by (simp_all add: int_field_def subscript_def)
  then show ?thesis by (simp only: send_body_def)
qed

lemma send_body_timestamps:
  "send_body E w sid data = r \<Longrightarrow> server_stamped E w (final r)"
  unfolding server_stamped_def
  by (auto simp: send_body_def db_add_def now_def emit_def Let_def dict_get_def
           split: sum.splits prod.splits if_splits option.splits)

lemma server_stamped_error:
  assumes "server_stamped E w w'"
  shows "server_stamped E w (final (emit E ''error'' [(''message'', JStr txt)] sid w'))"
proof -
  from assms obtain new evs where m: "messages w' = messages w @ new"
    and o: "outbox w' = outbox w @ evs"
    and tm: "\<forall>m \<in> set new. timestamp m = clock E (ticks w)"
    and te: "\<forall>e \<in> set evs. \<forall>v. dict_get (payload e) ''timestamp'' = Some v \<longrightarrow>
            v = JTime (clock E (ticks w))"
    unfolding server_stamped_def by blast
  show ?thesis
  proof (cases "emit_raises E (emit_calls w')")
    case True
    with m o tm te show ?thesis
      unfolding server_stamped_def by (simp add: emit_fail)
  next
    case False
    let ?err = "\<lparr>event = ''error'', payload = [(''message'', JStr txt)], recipients = rooms w' sid\<rparr>"
    have "\<forall>e \<in> set (evs @ [?err]). \<forall>v. dict_get (payload e) ''timestamp'' = Some v \<longrightarrow>
            v = JTime (clock E (ticks w))"
      using te by (simp add: dict_get_def)
    moreover have "outbox (final (emit E ''error'' [(''message'', JStr txt)] sid w')) = outbox w @ (evs @ [?err])"
      using False o by (simp add: emit_ok)
    moreover have "messages (final (emit E ''error'' [(''message'', JStr txt)] sid w')) = messages w @ new"
      using m by (simp add: emit_frame)
    ultimately show ?thesis using tm unfolding server_stamped_def by blast
  qed
qed

text \<open>
  Claim C9. The handler reads only the fields sender_id, receiver_id and message of a send
  request: two requests that differ only in a client-supplied timestamp field have the same
  outcome, in the stored row and in every emitted payload. The timestamp of the stored
  row, and the timestamp entries of the payloads of receive_message and message_sent, are
  the reading of the server clock taken at the insert.
\<close>

theorem client_timestamp_ignored:
  assumes "\<forall>k. k \<noteq> ''timestamp'' \<longrightarrow> dict_get data k = dict_get data' k"
  shows "handle_send_message E w sid data = handle_send_message E w sid data' \<and>
         server_stamped E w (final (handle_send_message E w sid data))"
proof
  from assms have "send_body E w sid data = send_body E w sid data'"
    by (intro send_body_cong) simp_all
  then show "handle_send_message E w sid data = handle_send_message E w sid data'"
    by (simp add: handle_send_message_def)
next
  show "server_stamped E w (final (handle_send_message E w sid data))"
  proof (cases "send_body E w sid data")
    case (Inl x)
    obtain e w' where x: "x = (e, w')" by (cases x)
    from send_body_timestamps [OF Inl] x have "server_stamped E w w'" by simp
    then have "server_stamped E w (final (emit E ''error'' [(''message'', JStr ''Failed to send message'')] sid w'))"
      by (rule server_stamped_error)
    with Inl x show ?thesis by (simp add: handle_send_message_def)
  next
    case (Inr w')
    from send_body_timestamps [OF Inr] Inr show ?thesis by (simp add: handle_send_message_def)
  qed
qed

theorem client_timestamp_ignored_witness:
  "handle_send_message reliable_env initial_world ''s1'' ((''timestamp'', PInt 5) # hi_from_1_to_2) =
     handle_send_message reliable_env initial_world ''s1'' hi_from_1_to_2 \<and>
   server_stamped reliable_env initial_world
     (final (handle_send_message reliable_env initial_world ''s1'' ((''timestamp'', PInt 5) # hi_from_1_to_2)))"
proof -
  have "\<forall>k. k \<noteq> ''timestamp'' \<longrightarrow>
      dict_get ((''timestamp'', PInt 5) # hi_from_1_to_2) k = dict_get hi_from_1_to_2 k"
    by (simp add: dict_get_def)
  then show ?thesis by (rule client_timestamp_ignored)
qed

lemma stamped_send_example:
  "map timestamp (messages (final (handle_send_message reliable_env initial_world ''s1''
      ((''timestamp'', PInt 5) # hi_from_1_to_2)))) = [100]"
  by code_simp

section \<open>Acknowledging a send\<close>

lemma send_body_valid:
  assumes s: "int_field E data ''sender_id'' = Inr s"
    and r: "int_field E data ''receiver_id'' = Inr r"
    and m: "dict_get data ''message'' = Some (PStr txt)"
    and ne: "strip txt \<noteq> []"
    and fits: "fits_int64 s" "fits_int64 r"
    and room: "last_rowid (messages w) < max_rowid"
  shows "send_body E w sid data =
     (let msg = stored E w s r (strip txt);
          w1 = w\<lparr>ticks := Suc (ticks w), messages := messages w @ [msg]\<rparr>
      in case emit E ''receive_message'' (payload (receive_message_event w msg))
                (get_room s r) w1 of
           Inl x \<Rightarrow> Inl x
         | Inr w2 \<Rightarrow> emit E ''message_sent'' (payload (message_sent_event w sid msg)) sid w2)"
  using s r m ne db_add_ok [OF fits room, of E "strip txt"]
  by (simp add: send_body_def subscript_def py_strip_def Let_def stored_def
        receive_message_event_def message_sent_event_def split: sum.splits)

lemma send_body_overflow:
  assumes s: "int_field E data ''sender_id'' = Inr s"
    and r: "int_field E data ''receiver_id'' = Inr r"
    and m: "dict_get data ''message'' = Some (PStr txt)"
    and ne: "strip txt \<noteq> []"
    and big: "\<not> (fits_int64 s \<and> fits_int64 r)"
  shows "send_body E w sid data = Inl (OverflowError, w\<lparr>ticks := Suc (ticks w)\<rparr>)"
  using s r m ne db_add_overflow [OF big, of E "strip txt" w]
  by (simp add: send_body_def subscript_def py_strip_def)

lemma ack_in_range:
  assumes s: "int_field E data ''sender_id'' = Inr s"
    and r: "int_field E data ''receiver_id'' = Inr r"
    and m: "dict_get data ''message'' = Some (PStr txt)"
    and ne: "strip txt \<noteq> []"
    and fits: "fits_int64 s" "fits_int64 r"
    and room: "last_rowid (messages w) < max_rowid"
  shows "messages (final (handle_send_message E w sid data)) =
           messages w @ [stored E w s r (strip txt)] \<and>
         (\<not> emit_raises E (emit_calls w) \<longrightarrow> \<not> emit_raises E (Suc (emit_calls w)) \<longrightarrow>
            outbox (final (handle_send_message E w sid data)) =
              outbox w @ [receive_message_event w (stored E w s r (strip txt)),
                          message_sent_event w sid (stored E w s r (strip txt))]) \<and>
         (emit_raises E (emit_calls w) \<longrightarrow>
            outbox (final (handle_send_message E w sid data)) =
              outbox w @ (if emit_raises E (Suc (emit_calls w)) then []
                          else [\<lparr>event = ''error'',
                                 payload = [(''message'', JStr ''Failed to send message'')],
                                 recipients = rooms w sid\<rparr>]))"
proof -
  let ?msg = "stored E w s r (strip txt)"
  let ?w1 = "w\<lparr>ticks := Suc (ticks w), messages := messages w @ [?msg]\<rparr>"
  note body = send_body_valid [OF s r m ne fits room, of sid]
  show ?thesis
  proof (cases "emit_raises E (emit_calls w)")
    case True
    then have "send_body E w sid data = Inl (EmitError, ?w1\<lparr>emit_calls := Suc (emit_calls w)\<rparr>)"
      unfolding body by (simp add: Let_def emit_fail)
    then have h: "handle_send_message E w sid data =
        emit E ''error'' [(''message'', JStr ''Failed to send message'')] sid
          (?w1\<lparr>emit_calls := Suc (emit_calls w)\<rparr>)"
      by (simp add: handle_send_message_def)
    show ?thesis
    proof (cases "emit_raises E (Suc (emit_calls w))")
      case t: True
      with True show ?thesis unfolding h by (simp add: emit_fail)
    next
      case f: False
      with True show ?thesis unfolding h by (simp add: emit_ok)
    qed
  next
    case False
    let ?w2 = "?w1\<lparr>emit_calls := Suc (emit_calls w),
                    outbox := outbox w @ [receive_message_event w ?msg]\<rparr>"
    from False have e1: "emit E ''receive_message'' (payload (receive_message_event w ?msg))
                (get_room s r) ?w1 = Inr ?w2"
      by (simp add: emit_ok receive_message_event_def stored_def)
    then have b2: "send_body E w sid data =
        emit E ''message_sent'' (payload (message_sent_event w sid ?msg)) sid ?w2"
      unfolding body by (simp add: Let_def)
    show ?thesis
    proof (cases "emit_raises E (Suc (emit_calls w))")
      case f: False
      then have "send_body E w sid data =
          Inr (?w2\<lparr>emit_calls := Suc (Suc (emit_calls w)),
                    outbox := outbox w @ [receive_message_event w ?msg, message_sent_event w sid ?msg]\<rparr>)"
        unfolding b2 by (simp add: emit_ok message_sent_event_def)
      with False f show ?thesis by (simp add: handle_send_message_def)
    next
      case t: True
      then have "send_body E w sid data = Inl (EmitError, ?w2\<lparr>emit_calls := Suc (Suc (emit_calls w))\<rparr>)"
        unfolding b2 by (simp add: emit_fail)
      then have "handle_send_message E w sid data =
         emit E ''error'' [(''message'', JStr ''Failed to send message'')] sid
           (?w2\<lparr>emit_calls := Suc (Suc (emit_calls w))\<rparr>)"
        by (simp add: handle_send_message_def)
      then have "messages (final (handle_send_message E w sid data)) = messages w @ [?msg]"
        by (simp add: emit_frame)
      with False t show ?thesis by simp
    qed
  qed
qed

lemma nothing_stored_out_of_range:
  assumes s: "int_field E data ''sender_id'' = Inr s"
    and r: "int_field E data ''receiver_id'' = Inr r"
    and m: "dict_get data ''message'' = Some (PStr txt)"
    and ne: "strip txt \<noteq> []"
    and big: "\<not> (fits_int64 s \<and> fits_int64 r)"
  shows "messages (final (handle_send_message E w sid data)) = messages w \<and>
         outbox (final (handle_send_message E w sid data)) =
           outbox w @ (if emit_raises E (emit_calls w) then []
                       else [\<lparr>event = ''error'',
                              payload = [(''message'', JStr ''Failed to send message'')],
                              recipients = rooms w sid\<rparr>])"
proof -
  from send_body_overflow [OF s r m ne big, of w sid]
  have h: "handle_send_message E w sid data =
      emit E ''error'' [(''message'', JStr ''Failed to send message'')] sid
        (w\<lparr>ticks := Suc (ticks w)\<rparr>)"
    by (simp add: handle_send_message_def)
  show ?thesis
  proof (cases "emit_raises E (emit_calls w)")
    case True
    then show ?thesis unfolding h by (simp add: emit_fail)
  next
    case False
    then show ?thesis unfolding h by (simp add: emit_ok)
  qed
qed

text \<open>
  Claim C3, as amended. Take a send that passes validation. When its sender and receiver
  ids fit a signed 64-bit integer (and the table has not used up its ids), the row is
  stored; when the call that broadcasts receive_message to the room returns and the next
  call does not raise, the handler emits receive_message to the room and then
  message_sent, carrying the timestamp and id of the stored row, to the sender's own
  room; when the broadcast call raises, the acknowledgement is not emitted: control
  passes to the except clause, which emits at most an error event to the sender, and the
  row stays stored. When an id does not fit, the insert raises: nothing is stored and the
  handler emits at most an error event to the sender.
\<close>

theorem ack_only_after_broadcast:
  assumes s: "int_field E data ''sender_id'' = Inr s"
    and r: "int_field E data ''receiver_id'' = Inr r"
    and m: "dict_get data ''message'' = Some (PStr txt)"
    and ne: "strip txt \<noteq> []"
  shows "(fits_int64 s \<and> fits_int64 r \<and> last_rowid (messages w) < max_rowid \<longrightarrow>
           messages (final (handle_send_message E w sid data)) =
             messages w @ [stored E w s r (strip txt)] \<and>
           (\<not> emit_raises E (emit_calls w) \<longrightarrow> \<not> emit_raises E (Suc (emit_calls w)) \<longrightarrow>
              outbox (final (handle_send_message E w sid data)) =
                outbox w @ [receive_message_event w (stored E w s r (strip txt)),
                            message_sent_event w sid (stored E w s r (strip txt))]) \<and>
           (emit_raises E (emit_calls w) \<longrightarrow>
              outbox (final (handle_send_message E w sid data)) =
                outbox w @ (if emit_raises E (Suc (emit_calls w)) then []
                            else [\<lparr>event = ''error'',
                                   payload = [(''message'', JStr ''Failed to send message'')],
                                   recipients = rooms w sid\<rparr>]))) \<and>
         (\<not> (fits_int64 s \<and> fits_int64 r) \<longrightarrow>
           messages (final (handle_send_message E w sid data)) = messages w \<and>
           outbox (final (handle_send_message E w sid data)) =
             outbox w @ (if emit_raises E (emit_calls w) then []
                         else [\<lparr>event = ''error'',
                                payload = [(''message'', JStr ''Failed to send message'')],
                                recipients = rooms w sid\<rparr>]))"
  using ack_in_range [OF s r m ne, of w sid] nothing_stored_out_of_range [OF s r m ne, of w sid]
  by blast

theorem ack_only_after_broadcast_witness:
  "int_field reliable_env hi_from_7_to_8 ''sender_id'' = Inr 7 \<and>
   int_field reliable_env hi_from_7_to_8 ''receiver_id'' = Inr 8 \<and>
   dict_get hi_from_7_to_8 ''message'' = Some (PStr '' hi '') \<and>
   strip '' hi '' \<noteq> [] \<and>
   fits_int64 7 \<and> fits_int64 8 \<and> last_rowid (messages alice_online) < max_rowid \<and>
   messages (final (handle_send_message reliable_env alice_online ''s1'' hi_from_7_to_8)) =
     messages alice_online @ [stored reliable_env alice_online 7 8 (strip '' hi '')] \<and>
   outbox (final (handle_send_message reliable_env alice_online ''s1'' hi_from_7_to_8)) =
     outbox alice_online @
       [receive_message_event alice_online (stored reliable_env alice_online 7 8 (strip '' hi '')),
        message_sent_event alice_online ''s1'' (stored reliable_env alice_online 7 8 (strip '' hi ''))]"
proof -
  have 1: "int_field reliable_env hi_from_7_to_8 ''sender_id'' = Inr 7"
    by (simp add: int_field_def subscript_def dict_get_def hi_from_7_to_8_def py_int_def)
  have 2: "int_field reliable_env hi_from_7_to_8 ''receiver_id'' = Inr 8"
    by (simp add: int_field_def subscript_def dict_get_def hi_from_7_to_8_def py_int_def)
  have 3: "dict_get hi_from_7_to_8 ''message'' = Some (PStr '' hi '')"
    by (simp add: dict_get_def hi_from_7_to_8_def)
  have 4: "strip '' hi '' \<noteq> []"
    by (simp add: strip_def py_isspace_def)
  have 5: "\<not> emit_raises reliable_env (emit_calls alice_online)"
    and 6: "\<not> emit_raises reliable_env (Suc (emit_calls alice_online))"
    by (simp_all add: reliable_env_def)
  have 7: "fits_int64 7" and 8: "fits_int64 8"
    and 9: "last_rowid (messages alice_online) < max_rowid"
    by (simp_all add: fits_int64_def max_rowid_def last_rowid_def alice_online_def)
  from 1 2 3 4 5 6 7 8 9 ack_only_after_broadcast [OF 1 2 3 4, of alice_online "''s1''"]
  show ?thesis by blast
qed

text \<open>
  Claim C3 as stated fails: on a transport whose first call of emit raises, a valid send
  from connection \<open>s1\<close> stores row 1, the failing call is the broadcast, and the only
  event emitted is the error event; no message_sent follows.
\<close>

theorem ack_blocked_by_failed_broadcast:
  "emit_raises failing_env (emit_calls alice_online) \<and>
   map message_id (messages (final (handle_send_message failing_env alice_online ''s1'' hi_from_7_to_8))) = [1] \<and>
   map event (outbox (final (handle_send_message failing_env alice_online ''s1'' hi_from_7_to_8))) = [''error''] \<and>
   ''message_sent'' \<notin> set (map event
      (outbox (final (handle_send_message failing_env alice_online ''s1'' hi_from_7_to_8))))"
  by code_simp

lemma valid_send_events:
  "map event (outbox (final (handle_send_message reliable_env alice_online ''s1'' hi_from_7_to_8))) =
     [''receive_message'', ''message_sent'']"
  by code_simp

lemma too_big_send_example:
  "messages (final (handle_send_message reliable_env alice_online ''s1'' hi_from_too_big)) = [] \<and>
   map event (outbox (final (handle_send_message reliable_env alice_online ''s1'' hi_from_too_big))) =
     [''error'']"
  by code_simp

section \<open>Joining\<close>

text \<open>
  Claim C6. For a join with sender and receiver ids that convert to integers and a display
  name present, on a transport whose two calls of emit return, the handler enters the
  joiner into the room of the pair, emits one system notice (the display name followed by
  "joined the chat", with a reading of the server clock) addressed to all members of that
  room, the joiner included, and then exactly one joined_room confirmation addressed to
  the joining connection only; nothing else is emitted.
\<close>

theorem join_notifies_room_and_joiner:
  assumes s: "int_field E data ''sender_id'' = Inr s"
    and r: "int_field E data ''receiver_id'' = Inr r"
    and name: "dict_get data ''sender_username'' = Some name"
    and ok1: "\<not> emit_raises E (emit_calls w)"
    and ok2: "\<not> emit_raises E (Suc (emit_calls w))"
    and own: "rooms w sid = {sid}"
  shows "\<exists>w'. handle_join E w sid data = Inr w' \<and>
           rooms w' = (rooms w)(get_room s r := insert sid (rooms w (get_room s r))) \<and>
           outbox w' = outbox w @
             [system_event w sid (get_room s r) name (clock E (ticks w)),
              joined_room_event sid (get_room s r) r (clock E (Suc (ticks w)))]"
proof -
  let ?room = "get_room s r"
  have own': "((rooms w)(?room := insert sid (rooms w ?room))) sid = {sid}"
    using own by auto
  have "join_body E w sid data =
      Inr (w\<lparr>rooms := (rooms w)(?room := insert sid (rooms w ?room)),
             ticks := Suc (Suc (ticks w)),
             emit_calls := Suc (Suc (emit_calls w)),
             outbox := outbox w @
               [system_event w sid ?room name (clock E (ticks w)),
                joined_room_event sid ?room r (clock E (Suc (ticks w)))]\<rparr>)"
    using s r name ok1 ok2 own'
    by (simp add: join_body_def subscript_def join_room_def now_def emit_def Let_def
          system_event_def joined_room_event_def)
  then show ?thesis by (simp add: handle_join_def)
qed

theorem join_notifies_room_and_joiner_witness:
  "int_field reliable_env join_7_8 ''sender_id'' = Inr 7 \<and>
   int_field reliable_env join_7_8 ''receiver_id'' = Inr 8 \<and>
   dict_get join_7_8 ''sender_username'' = Some (PStr ''Alice'') \<and>
   rooms bob_waiting ''s1'' = {''s1''} \<and>
   (\<exists>w'. handle_join reliable_env bob_waiting ''s1'' join_7_8 = Inr w' \<and>
      rooms w' = (rooms bob_waiting)(get_room 7 8 := insert ''s1'' (rooms bob_waiting (get_room 7 8))) \<and>
      outbox w' = outbox bob_waiting @
        [system_event bob_waiting ''s1'' (get_room 7 8) (PStr ''Alice'') (clock reliable_env (ticks bob_waiting)),
         joined_room_event ''s1'' (get_room 7 8) 8 (clock reliable_env (Suc (ticks bob_waiting)))])"
proof -
  have 1: "int_field reliable_env join_7_8 ''sender_id'' = Inr 7"
    by (simp add: int_field_def subscript_def dict_get_def join_7_8_def py_int_def)
  have 2: "int_field reliable_env join_7_8 ''receiver_id'' = Inr 8"
    by (simp add: int_field_def subscript_def dict_get_def join_7_8_def py_int_def)
  have 3: "dict_get join_7_8 ''sender_username'' = Some (PStr ''Alice'')"
    by (simp add: dict_get_def join_7_8_def)
  have 4: "\<not> emit_raises reliable_env (emit_calls bob_waiting)"
    and 5: "\<not> emit_raises reliable_env (Suc (emit_calls bob_waiting))"
    by (simp_all add: reliable_env_def)
  have 6: "rooms bob_waiting ''s1'' = {''s1''}"
    by (simp add: bob_waiting_def)
  from 1 2 3 6 join_notifies_room_and_joiner [OF 1 2 3 4 5 6] show ?thesis by blast
qed

lemma join_example:
  "map (\<lambda>e. (event e, recipients e)) (outbox (final (handle_join reliable_env bob_waiting ''s1'' join_7_8))) =
     [(''system'', {''s1'', ''s2''}), (''joined_room'', {''s1''})]"
  by code_simp

section \<open>History\<close>

lemma between_iff:
  "((sender_id m = a \<and> receiver_id m = b) \<or> (sender_id m = b \<and> receiver_id m = a)) \<longleftrightarrow>
   {sender_id m, receiver_id m} = {a, b}"
  by (auto simp: doubleton_eq_iff)

lemma insort_ordered:
  assumes "ordered_by_timestamp_then_id ys"
    and "\<forall>y \<in> set ys. message_id x \<le> message_id y"
  shows "ordered_by_timestamp_then_id (insort_key timestamp x ys)"
  using assms
proof (induction ys)
  case Nil
  then show ?case by (simp add: ordered_by_timestamp_then_id_def)
next
  case (Cons y ys)
  from Cons.prems have tail: "ordered_by_timestamp_then_id ys"
    and ids: "\<forall>z \<in> set ys. message_id x \<le> message_id z"
    by (simp_all add: ordered_by_timestamp_then_id_def)
  show ?case
  proof (cases "timestamp x \<le> timestamp y")
    case True
    with Cons.prems show ?thesis
      by (fastforce simp: ordered_by_timestamp_then_id_def)
  next
    case False
    from Cons.IH [OF tail ids] have "ordered_by_timestamp_then_id (insort_key timestamp x ys)" .
    with False Cons.prems show ?thesis
      by (auto simp: ordered_by_timestamp_then_id_def set_insort_key)
  qed
qed

lemma sort_ordered:
  "sorted (map message_id xs) \<Longrightarrow> ordered_by_timestamp_then_id (sort_key timestamp xs)"
proof (induction xs)
  case Nil
  show ?case by (simp add: ordered_by_timestamp_then_id_def)
next
  case (Cons x xs)
  then have "ordered_by_timestamp_then_id (sort_key timestamp xs)"
    and "\<forall>y \<in> set (sort_key timestamp xs). message_id x \<le> message_id y"
    by simp_all
  then show ?case by (simp add: insort_ordered)
qed

lemma history_out_of_range:
  "\<not> (fits_int64 a \<and> fits_int64 b) \<Longrightarrow> get_messages tbl a b = Error500 ''Failed to fetch messages''"
  by (simp add: get_messages_def)

text \<open>
  Claim C1. For every pair of participant identifiers, values of the 64-bit integer
  columns that hold them, the history query answers with exactly the persisted messages
  whose sender and receiver are the two participants, in either direction, each once,
  and the returned sequence is sorted ascending by timestamp with ties broken by
  ascending id.
\<close>

theorem history_exact_and_ordered:
  assumes "fits_int64 a" and "fits_int64 b"
  shows "\<exists>res. get_messages tbl a b = Ok200 res \<and>
           mset res = filter_mset (\<lambda>m. {sender_id m, receiver_id m} = {a, b}) (mset tbl) \<and>
           ordered_by_timestamp_then_id res"
proof -
  let ?P = "\<lambda>m. (sender_id m = a \<and> receiver_id m = b) \<or> (sender_id m = b \<and> receiver_id m = a)"
  let ?res = "sort_key timestamp (filter ?P (sort_key message_id tbl))"
  from assms have "get_messages tbl a b = Ok200 ?res"
    by (simp add: get_messages_def)
  moreover have "mset ?res = filter_mset (\<lambda>m. {sender_id m, receiver_id m} = {a, b}) (mset tbl)"
    by (simp add: between_iff)
  moreover have "sorted (map message_id (filter ?P (sort_key message_id tbl)))"
    by (rule sorted_filter) simp
  then have "ordered_by_timestamp_then_id ?res" by (rule sort_ordered)
  ultimately show ?thesis by blast
qed

theorem history_exact_and_ordered_witness:
  "fits_int64 1 \<and> fits_int64 2 \<and>
   (\<exists>res. get_messages [second_hi, first_hi] 1 2 = Ok200 res \<and>
      mset res = filter_mset (\<lambda>m. {sender_id m, receiver_id m} = {1, 2}) (mset [second_hi, first_hi]) \<and>
      ordered_by_timestamp_then_id res)"
proof -
  have 1: "fits_int64 1" and 2: "fits_int64 2"
    by (simp_all add: fits_int64_def max_rowid_def)
  from 1 2 history_exact_and_ordered [OF 1 2, of "[second_hi, first_hi]"] show ?thesis by blast
qed

lemma history_ties_example:
  "messages (run coarse_clock_env initial_world
      [SendMessage ''s1'' hi_from_1_to_2, SendMessage ''s1'' hi_from_1_to_2]) = [first_hi, second_hi] \<and>
   get_messages [first_hi, second_hi] 1 2 = Ok200 [first_hi, second_hi] \<and>
   get_messages [second_hi, first_hi] 1 2 = Ok200 [first_hi, second_hi] \<and>
   get_messages [first_hi, second_hi] (2 ^ 63) 2 = Error500 ''Failed to fetch messages''"
  by code_simp

end
